theory Spec2Isabelle
  imports Complex_Main
begin

section \<open>JavaScript values used by bot.js\<close>

text \<open>
  The bot keeps its whole state in one object, \<open>bankData\<close>, and every command reads
  its arguments as strings split from the chat message. This section models the few
  JavaScript built-ins the commands rely on.

  Strings are \<open>char list\<close>s. White space is the ASCII white space (space, tab, line feed,
  vertical tab, form feed, carriage return); \<open>toLowerCase\<close> folds the ASCII letters.
\<close>

definition isSpace :: "char \<Rightarrow> bool" where
  "isSpace c = (c = CHR '' '' \<or> c = CHR 0x09 \<or> c = CHR 0x0A \<or> c = CHR 0x0B
                \<or> c = CHR 0x0C \<or> c = CHR 0x0D)"

definition trim :: "string \<Rightarrow> string" where
  "trim s = rev (dropWhile isSpace (rev (dropWhile isSpace s)))"

definition lowerChar :: "char \<Rightarrow> char" where
  "lowerChar c =
     (if (65::nat) \<le> of_char c \<and> of_char c \<le> (90::nat) then char_of (of_char c + (32::nat)) else c)"

definition toLowerCase :: "string \<Rightarrow> string" where
  "toLowerCase s = map lowerChar s"

text \<open>
  \<open>str.split(/\s+/)\<close> on a trimmed, non-empty string: the maximal runs of characters
  that are not white space, in order.
\<close>

fun splitWs :: "string \<Rightarrow> string \<Rightarrow> string list" where
  "splitWs acc [] = (if acc = [] then [] else [rev acc])"
| "splitWs acc (c # cs) =
     (if isSpace c then (if acc = [] then splitWs [] cs else rev acc # splitWs [] cs)
      else splitWs (c # acc) cs)"

subsection \<open>Numbers\<close>

text \<open>
  A JavaScript number is \<open>NaN\<close>, an infinity or a finite value. Finite values are kept
  as exact rationals: the rounding of binary64 (of a long literal to 53 bits, of a huge
  one to \<open>Infinity\<close>, of a tiny one to \<open>0\<close>, and of sums beyond \<open>2^53\<close>) is outside this
  model, so the model and the program agree on values that binary64 represents exactly:
  all integers below \<open>2^53\<close> in magnitude, and fractions such as \<open>0.5\<close>.
\<close>

datatype number = NaN | PosInfinity | NegInfinity | Finite rat

definition isFinite :: "number \<Rightarrow> bool" where
  "isFinite n = (case n of Finite _ \<Rightarrow> True | _ \<Rightarrow> False)"

definition digitVal :: "nat \<Rightarrow> char \<Rightarrow> nat option" where
  "digitVal base c =
     (let k = (of_char c :: nat);
          v = (if 48 \<le> k \<and> k \<le> 57 then Some (k - 48)
               else if 97 \<le> k \<and> k \<le> 102 then Some (k - 87)
               else if 65 \<le> k \<and> k \<le> 70 then Some (k - 55)
               else None)
      in case v of None \<Rightarrow> None | Some d \<Rightarrow> (if d < base then Some d else None))"

fun digitsVal :: "nat \<Rightarrow> nat \<Rightarrow> string \<Rightarrow> nat option" where
  "digitsVal base acc [] = Some acc"
| "digitsVal base acc (c # cs) =
     (case digitVal base c of None \<Rightarrow> None | Some d \<Rightarrow> digitsVal base (acc * base + d) cs)"

text \<open>A non-empty run of digits of the given base, as its value.\<close>

definition digits1 :: "nat \<Rightarrow> string \<Rightarrow> nat option" where
  "digits1 base s = (if s = [] then None else digitsVal base 0 s)"

text \<open>The exponent part after \<open>e\<close> or \<open>E\<close>: an optional sign and decimal digits.\<close>

definition exponentVal :: "string \<Rightarrow> int option" where
  "exponentVal s =
     (case s of
        [] \<Rightarrow> None
      | c # cs \<Rightarrow>
          (if c = CHR ''-'' then map_option (\<lambda>n. - int n) (digits1 10 cs)
           else if c = CHR ''+'' then map_option int (digits1 10 cs)
           else map_option int (digits1 10 s)))"

text \<open>
  The mantissa \<open>digits\<close>, \<open>digits.\<close>, \<open>digits.digits\<close> or \<open>.digits\<close>, as a rational.
\<close>

definition mantissaVal :: "string \<Rightarrow> rat option" where
  "mantissaVal s =
     (let ip = takeWhile (\<lambda>c. c \<noteq> CHR ''.'') s;
          rest = dropWhile (\<lambda>c. c \<noteq> CHR ''.'') s
      in if rest = [] then map_option of_nat (digits1 10 ip)
         else (let fp = tl rest
               in if ip = [] \<and> fp = [] then None
                  else (case (digitsVal 10 0 ip, digitsVal 10 0 fp) of
                          (Some i, Some f) \<Rightarrow> Some (of_nat i + of_nat f / 10 ^ length fp)
                        | _ \<Rightarrow> None)))"

definition isExpChar :: "char \<Rightarrow> bool" where
  "isExpChar c = (c = CHR ''e'' \<or> c = CHR ''E'')"

definition unsignedDecimal :: "string \<Rightarrow> number" where
  "unsignedDecimal s =
     (if s = ''Infinity'' then PosInfinity
      else (let m = takeWhile (\<lambda>c. \<not> isExpChar c) s;
                rest = dropWhile (\<lambda>c. \<not> isExpChar c) s
            in case mantissaVal m of
                 None \<Rightarrow> NaN
               | Some q \<Rightarrow>
                   (if rest = [] then Finite q
                    else (case exponentVal (tl rest) of
                            None \<Rightarrow> NaN
                          | Some e \<Rightarrow>
                              Finite (if 0 \<le> e then q * 10 ^ nat e else q / 10 ^ nat (- e))))))"

definition negate :: "number \<Rightarrow> number" where
  "negate n = (case n of NaN \<Rightarrow> NaN | PosInfinity \<Rightarrow> NegInfinity
               | NegInfinity \<Rightarrow> PosInfinity | Finite q \<Rightarrow> Finite (- q))"

definition radixPrefix :: "string \<Rightarrow> nat option" where
  "radixPrefix s =
     (case s of
        c # d # _ \<Rightarrow>
          (if c \<noteq> CHR ''0'' then None
           else if d = CHR ''x'' \<or> d = CHR ''X'' then Some 16
           else if d = CHR ''o'' \<or> d = CHR ''O'' then Some 8
           else if d = CHR ''b'' \<or> d = CHR ''B'' then Some 2
           else None)
      | _ \<Rightarrow> None)"

text \<open>
  \<open>Number(str)\<close> on a string: white space is trimmed, the empty string is \<open>0\<close>,
  \<open>0x\<close>, \<open>0o\<close> and \<open>0b\<close> literals are unsigned integers, a decimal literal has an
  optional sign, and everything else is \<open>NaN\<close>.
\<close>

definition Number :: "string \<Rightarrow> number" where
  "Number str =
     (let s = trim str
      in if s = [] then Finite 0
         else (case radixPrefix s of
                 Some b \<Rightarrow>
                   (case digits1 b (drop 2 s) of None \<Rightarrow> NaN | Some n \<Rightarrow> Finite (of_nat n))
               | None \<Rightarrow>
                   (if hd s = CHR ''-'' then negate (unsignedDecimal (tl s))
                    else if hd s = CHR ''+'' then unsignedDecimal (tl s)
                    else unsignedDecimal s)))"

subsection \<open>Loose values\<close>

text \<open>
  Most values the commands handle are strings. Two places hand other values to code that
  expects a string: \<open>repayCommand\<close> and \<open>accrueCommand\<close> call \<open>findOpenLoans\<close> with one object
  literal (so the second parameter is \<open>undefined\<close>), and they read the property
  \<open>loanId\<close> of a loan record, which has no such property. \<open>jsval\<close> holds the kinds of
  value that occur there; \<open>null\<close> is what \<open>normalizeLoanId\<close> returns for a blank id.
\<close>

datatype jsval = Undefined | Null | Str string | Obj "(string \<times> string) list"

text \<open>\<open>String(v)\<close>, which is also how a template literal and a property key read \<open>v\<close>.\<close>

definition toStr :: "jsval \<Rightarrow> string" where
  "toStr v =
     (case v of Undefined \<Rightarrow> ''undefined'' | Null \<Rightarrow> ''null'' | Str s \<Rightarrow> s
      | Obj _ \<Rightarrow> ''[object Object]'')"

definition truthy :: "jsval \<Rightarrow> bool" where
  "truthy v =
     (case v of Undefined \<Rightarrow> False | Null \<Rightarrow> False | Str s \<Rightarrow> s \<noteq> [] | Obj _ \<Rightarrow> True)"

text \<open>\<open>String(v || "")\<close>\<close>

definition strOrEmpty :: "jsval \<Rightarrow> string" where
  "strOrEmpty v = (if truthy v then toStr v else [])"

subsection \<open>Objects used as dictionaries\<close>

text \<open>
  \<open>bankData.balances\<close>, \<open>bankData.loans\<close> and the other dictionaries are plain objects. An
  object is modelled by the list of its own properties in the order \<open>Object.entries\<close>
  gives them: the keys that are array indices first, ascending, then the other keys in
  the order they were created. Properties inherited from \<open>Object.prototype\<close> are not
  modelled.
\<close>

type_synonym 'v obj = "(string \<times> 'v) list"

definition obj_get :: "'v obj \<Rightarrow> string \<Rightarrow> 'v option" where
  "obj_get ob k = map_of ob k"

definition arrayIndex :: "string \<Rightarrow> nat option" where
  "arrayIndex k =
     (if k = [] \<or> (hd k = CHR ''0'' \<and> tl k \<noteq> []) then None
      else (case digitsVal 10 0 k of
              None \<Rightarrow> None
            | Some n \<Rightarrow> (if n < 4294967295 then Some n else None)))"

fun addProperty :: "string \<Rightarrow> 'v \<Rightarrow> 'v obj \<Rightarrow> 'v obj" where
  "addProperty k v [] = [(k, v)]"
| "addProperty k v (p # ps) =
     (case arrayIndex k of
        None \<Rightarrow> p # addProperty k v ps
      | Some n \<Rightarrow>
          (case arrayIndex (fst p) of
             None \<Rightarrow> (k, v) # p # ps
           | Some n' \<Rightarrow> (if n < n' then (k, v) # p # ps else p # addProperty k v ps)))"

text \<open>\<open>ob[k] = v\<close>: an existing property keeps its place, a new one is added.\<close>

definition obj_set :: "string \<Rightarrow> 'v \<Rightarrow> 'v obj \<Rightarrow> 'v obj" where
  "obj_set k v ob =
     (if map_of ob k = None then addProperty k v ob
      else map (\<lambda>p. if fst p = k then (k, v) else p) ob)"

section \<open>Data storage\<close>

text \<open>
  The records of \<open>bankData\<close>. A bank transaction and a loan transaction have the same
  shape \<open>{timestamp, type, amount, actorId, note}\<close>; the fields \<open>type\<close> and \<open>note\<close> are
  \<open>txType\<close> and \<open>txNote\<close> here. A loan is
  \<open>{borrowerName, lenderName, balance, status, timestamp, note}\<close>, with \<open>loanTimestamp\<close> and
  \<open>loanNote\<close> for the last two. Amounts and balances written by the commands are
  integers.
\<close>

record transaction =
  timestamp :: string
  txType :: string
  amount :: int
  actorId :: string
  txNote :: string

record profile =
  profileName :: string

record loan =
  borrowerName :: string
  lenderName :: string
  balance :: int
  status :: string
  loanTimestamp :: string
  loanNote :: string

record bankData =
  balances :: "int obj"
  transactions :: "transaction list obj"
  profiles :: "profile obj"
  loans :: "loan obj"
  loanTransactions :: "transaction list obj"

text \<open>The initial value of \<open>bankData\<close>.\<close>

definition initialData :: bankData where
  "initialData = \<lparr>balances = [], transactions = [], profiles = [], loans = [],
                   loanTransactions = []\<rparr>"

text \<open>
  What a command reads from outside the state: the clock (\<open>new Date().toISOString()\<close>,
  \<open>Date.now().toString(36)\<close>, \<open>Date.now()\<close> in decimal), the six characters taken from
  \<open>Math.random()\<close>, whether the promise of \<open>message.channel.send\<close> is fulfilled, and whether
  \<open>fs.writeFileSync\<close> succeeds.
\<close>

record env =
  now :: string
  nowBase36 :: string
  nowDecimal :: string
  randomSuffix :: string
  sendOk :: bool
  writeOk :: bool

record user =
  userId :: string
  username :: string
  bot :: bool

text \<open>A chat message: its author, \<open>message.mentions.users\<close> in order, and its text.\<close>

record message =
  author :: user
  mentions :: "user list"
  content :: string

definition getBalance :: "bankData \<Rightarrow> string \<Rightarrow> int" where
  "getBalance bd accountName = (case obj_get (balances bd) accountName of None \<Rightarrow> 0 | Some b \<Rightarrow> b)"

definition setBalance :: "string \<Rightarrow> int \<Rightarrow> bankData \<Rightarrow> bankData" where
  "setBalance accountName amnt bd = bd\<lparr>balances := obj_set accountName amnt (balances bd)\<rparr>"

definition txList :: "transaction list obj \<Rightarrow> string \<Rightarrow> transaction list" where
  "txList ob k = (case obj_get ob k of None \<Rightarrow> [] | Some l \<Rightarrow> l)"

definition recordTransaction ::
  "env \<Rightarrow> string \<Rightarrow> string \<Rightarrow> int \<Rightarrow> string \<Rightarrow> string \<Rightarrow> bankData \<Rightarrow> bankData" where
  "recordTransaction e accountName ty amnt actor nt bd =
     bd\<lparr>transactions :=
          obj_set accountName
            (txList (transactions bd) accountName @
               [\<lparr>timestamp = now e, txType = ty, amount = amnt, actorId = actor, txNote = nt\<rparr>])
            (transactions bd)\<rparr>"

definition normalizeLoanId :: "jsval \<Rightarrow> string option" where
  "normalizeLoanId v =
     (if \<not> truthy v then None
      else (let s = trim (toStr v) in if s = [] then None else Some (take 64 s)))"

definition getLoan :: "bankData \<Rightarrow> jsval \<Rightarrow> loan option" where
  "getLoan bd loanId = obj_get (loans bd) (toStr loanId)"

definition recordLoanTransaction ::
  "env \<Rightarrow> jsval \<Rightarrow> string \<Rightarrow> int \<Rightarrow> string \<Rightarrow> string \<Rightarrow> bankData \<Rightarrow> bankData" where
  "recordLoanTransaction e loanId ty amnt actor nt bd =
     bd\<lparr>loanTransactions :=
          obj_set (toStr loanId)
            (txList (loanTransactions bd) (toStr loanId) @
               [\<lparr>timestamp = now e, txType = ty, amount = amnt, actorId = actor, txNote = nt\<rparr>])
            (loanTransactions bd)\<rparr>"

definition isLoanId :: "bankData \<Rightarrow> jsval \<Rightarrow> bool" where
  "isLoanId bd v =
     (case normalizeLoanId v of
        None \<Rightarrow> False
      | Some k \<Rightarrow> obj_get (loans bd) k \<noteq> None \<or> obj_get (loanTransactions bd) k \<noteq> None)"

section \<open>Replies\<close>

text \<open>
  Every command answers with one message built from a fixed template. A reply is the
  template together with the values interpolated into it, in the order they appear in
  the text; the wording itself is not modelled.
\<close>

datatype reply =
    NoReply
  | Busy
  | SomethingWentWrong
  | UnknownCommand
  | HelpText
  | DatabaseNotFound
  | DatabaseFile
  | SetNameUsage
  | NameEmpty
  | NameTooLong
  | NameSet string
  | DepositUsage
  | WithdrawUsage
  | AmountMustBePositive
  | Deposited int string int int
  | CannotWithdraw int string int
  | Withdrew int string int int
  | BalanceFor string int
  | NoTransactions string
  | LastTransactions nat string "transaction list"
  | LoanUsage
  | LenderEmpty
  | LoanCreated string string int string
  | RepayUsage
  | AccrueUsage
  | NoUnresolvedLoan string string
  | MultipleLoans string string string "(jsval \<times> string) list"
  | LoanNotFound jsval
  | AlreadyResolved jsval
  | ResolvedCannotAccrue jsval
  | NotBorrowersLoan jsval string
  | Repaid int string int int "string option" bool
  | Accrued int string int int "string option"
  | NoLoansOfBorrower string
  | LoansOfBorrower string "(string \<times> int \<times> string \<times> string) list" int
  | NoLoansOfLender string
  | LoansOfLender string "(string \<times> int \<times> string \<times> string) list" int
  | NoLeaderboard
  | Leaderboard "(string \<times> int) list" "(jsval \<times> int) list"

text \<open>
  How a command ends. The commands are \<open>async\<close> functions. Where the source writes
  \<open>return message.channel.send(...)\<close> the promise of the command settles as the promise of
  \<open>send\<close> does, so a failed send makes the awaiting caller throw; where it writes
  \<open>message.channel.send(...)\<close> alone, the command returns whatever happens to the send.
  Both outcomes carry the reply handed to \<open>send\<close> and the state at that point.
\<close>

datatype 'st completion = Returned reply 'st | Threw reply 'st

definition replyOf :: "'st completion \<Rightarrow> reply" where
  "replyOf c = (case c of Returned r _ \<Rightarrow> r | Threw r _ \<Rightarrow> r)"

definition stateOf :: "'st completion \<Rightarrow> 'st" where
  "stateOf c = (case c of Returned _ s \<Rightarrow> s | Threw _ s \<Rightarrow> s)"


text \<open>\<open>return message.channel.send(r)\<close>\<close>

definition returnSend :: "env \<Rightarrow> reply \<Rightarrow> 'st \<Rightarrow> 'st completion" where
  "returnSend e r s = (if sendOk e then Returned r s else Threw r s)"

text \<open>\<open>message.channel.send(r)\<close> as the last statement of a command\<close>

definition detachedSend :: "reply \<Rightarrow> 'st \<Rightarrow> 'st completion" where
  "detachedSend r s = Returned r s"

section \<open>Name profiles and utilities\<close>

definition getDefaultNameForUser :: "bankData \<Rightarrow> user \<Rightarrow> string" where
  "getDefaultNameForUser bd u =
     (case obj_get (profiles bd) (userId u) of
        None \<Rightarrow> username u
      | Some p \<Rightarrow> (if profileName p \<noteq> [] then profileName p else username u))"

text \<open>\<open>resolveAccountName(message, firstArg)\<close>; \<open>firstArg\<close> is \<open>None\<close> when \<open>args[0]\<close> is undefined.\<close>

definition resolveAccountName :: "bankData \<Rightarrow> message \<Rightarrow> string option \<Rightarrow> string" where
  "resolveAccountName bd m firstArg =
     (if mentions m \<noteq> [] then getDefaultNameForUser bd (hd (mentions m))
      else (case firstArg of
              Some a \<Rightarrow> (if a \<noteq> [] then a else getDefaultNameForUser bd (author m))
            | None \<Rightarrow> getDefaultNameForUser bd (author m)))"

text \<open>The \<open>name\<close> field of the result of \<open>resolvePersonFromArgOrMention(message, arg)\<close>.\<close>

definition resolvePersonFromArgOrMention :: "bankData \<Rightarrow> message \<Rightarrow> string option \<Rightarrow> string" where
  "resolvePersonFromArgOrMention bd m a =
     (if mentions m \<noteq> [] then getDefaultNameForUser bd (hd (mentions m))
      else (case a of
              Some s \<Rightarrow> (if s \<noteq> [] then trim s else getDefaultNameForUser bd (author m))
            | None \<Rightarrow> getDefaultNameForUser bd (author m)))"

definition parseAmount :: "string \<Rightarrow> int option" where
  "parseAmount str =
     (if str = [] then None
      else (case Number str of
              Finite n \<Rightarrow> (if n \<le> 0 then None else Some \<lfloor>n\<rfloor>)
            | _ \<Rightarrow> None))"

definition eqName :: "jsval \<Rightarrow> jsval \<Rightarrow> bool" where
  "eqName a b = (toLowerCase (trim (strOrEmpty a)) = toLowerCase (trim (strOrEmpty b)))"

text \<open>\<open>xs.join(" ")\<close>\<close>

fun joinSpace :: "string list \<Rightarrow> string" where
  "joinSpace [] = []"
| "joinSpace [x] = x"
| "joinSpace (x # y # ys) = x @ '' '' @ joinSpace (y # ys)"

text \<open>
  \<open>Number.isFinite(Number(args[0])) && !message.mentions.users.size\<close>; the commands
  evaluate it only when \<open>args\<close> is not empty.
\<close>

definition firstIsNumber :: "message \<Rightarrow> string list \<Rightarrow> bool" where
  "firstIsNumber m args = (isFinite (Number (args ! 0)) \<and> mentions m = [])"

section \<open>Account ledger\<close>

text \<open>
  \<open>depositCommand\<close> and \<open>withdrawCommand\<close> start with the same block, which picks the
  account name, the amount argument and the words of the note, or answers with the usage
  text (\<open>None\<close>). It runs after the check \<open>args.length < 2\<close>.
\<close>

definition accountArgs ::
  "bankData \<Rightarrow> message \<Rightarrow> string list \<Rightarrow> (string \<times> string \<times> string list) option" where
  "accountArgs bd m args =
     (if firstIsNumber m args then Some (getDefaultNameForUser bd (author m), args ! 0, drop 1 args)
      else if length args < 3 then None
      else Some (resolveAccountName bd m (Some (args ! 0)), args ! 1, drop 2 args))"

definition depositCommand :: "env \<Rightarrow> message \<Rightarrow> string list \<Rightarrow> bankData \<Rightarrow> bankData completion" where
  "depositCommand e m args bd =
     (if length args < 2 then returnSend e DepositUsage bd
      else (case accountArgs bd m args of
              None \<Rightarrow> returnSend e DepositUsage bd
            | Some (accountName, amountArg, noteArgs) \<Rightarrow>
                (case parseAmount amountArg of
                   None \<Rightarrow> returnSend e AmountMustBePositive bd
                 | Some amnt \<Rightarrow>
                     (let nt = joinSpace noteArgs;
                          oldBalance = getBalance bd accountName;
                          newBalance = oldBalance + amnt;
                          bd1 = setBalance accountName newBalance bd;
                          bd2 = recordTransaction e accountName ''deposit'' amnt
                                  (userId (author m)) nt bd1
                      in detachedSend (Deposited amnt accountName newBalance oldBalance) bd2))))"

definition withdrawCommand :: "env \<Rightarrow> message \<Rightarrow> string list \<Rightarrow> bankData \<Rightarrow> bankData completion" where
  "withdrawCommand e m args bd =
     (if length args < 2 then returnSend e WithdrawUsage bd
      else (case accountArgs bd m args of
              None \<Rightarrow> returnSend e WithdrawUsage bd
            | Some (accountName, amountArg, noteArgs) \<Rightarrow>
                (case parseAmount amountArg of
                   None \<Rightarrow> returnSend e AmountMustBePositive bd
                 | Some amnt \<Rightarrow>
                     (let oldBalance = getBalance bd accountName
                      in if amnt > oldBalance
                         then returnSend e (CannotWithdraw amnt accountName oldBalance) bd
                         else (let nt = joinSpace noteArgs;
                                   newBalance = oldBalance - amnt;
                                   bd1 = setBalance accountName newBalance bd;
                                   bd2 = recordTransaction e accountName ''withdraw'' amnt
                                           (userId (author m)) nt bd1
                               in detachedSend (Withdrew amnt accountName newBalance oldBalance)
                                    bd2)))))"

definition balanceCommand :: "message \<Rightarrow> string list \<Rightarrow> bankData \<Rightarrow> bankData completion" where
  "balanceCommand m args bd =
     (let accountName = resolveAccountName bd m (if args = [] then None else Some (args ! 0))
      in detachedSend (BalanceFor accountName (getBalance bd accountName)) bd)"

text \<open>
  \<open>list.slice(start)\<close>: a negative \<open>start\<close> counts from the end, and \<open>-0\<close> is \<open>0\<close>, the
  start of the list.
\<close>

definition sliceFrom :: "int \<Rightarrow> 'a list \<Rightarrow> 'a list" where
  "sliceFrom start xs =
     (let len = int (length xs);
          k = (if start < 0 then max (len + start) 0 else min start len)
      in drop (nat k) xs)"

text \<open>The value of \<open>count\<close> in \<open>historyCommand\<close>, which starts at 5.\<close>

definition historyCount :: "message \<Rightarrow> string list \<Rightarrow> int" where
  "historyCount m args =
     (if args = [] then 5
      else if firstIsNumber m args then
        (case Number (args ! 0) of
           Finite n \<Rightarrow> (if n > 0 \<and> n \<le> 20 then \<lfloor>n\<rfloor> else 5)
         | _ \<Rightarrow> 5)
      else if length args < 2 \<or> args ! 1 = [] then 5
      else (case Number (args ! 1) of
              Finite n \<Rightarrow> (if n > 0 \<and> n \<le> 20 then \<lfloor>n\<rfloor> else 5)
            | _ \<Rightarrow> 5))"

definition historyAccount :: "bankData \<Rightarrow> message \<Rightarrow> string list \<Rightarrow> string" where
  "historyAccount bd m args =
     (if args = [] then getDefaultNameForUser bd (author m)
      else if firstIsNumber m args then getDefaultNameForUser bd (author m)
      else resolveAccountName bd m (Some (args ! 0)))"

definition historyCommand :: "env \<Rightarrow> message \<Rightarrow> string list \<Rightarrow> bankData \<Rightarrow> bankData completion" where
  "historyCommand e m args bd =
     (let accountName = historyAccount bd m args;
          cnt = historyCount m args;
          list = txList (transactions bd) accountName
      in if length list = 0 then returnSend e (NoTransactions accountName) bd
         else (let recent = sliceFrom (- cnt) list
               in detachedSend (LastTransactions (length recent) accountName recent) bd))"

section \<open>Loan engine\<close>

definition generateLoanId :: "env \<Rightarrow> string" where
  "generateLoanId e =
     (case normalizeLoanId (Str (''loan_'' @ nowBase36 e @ ''_'' @ randomSuffix e)) of
        Some safe \<Rightarrow> safe
      | None \<Rightarrow> ''loan_'' @ nowDecimal e)"

text \<open>
  \<open>findOpenLoans(borrowerName, lenderName)\<close>. The parameters are whatever the caller
  passes; the loans come in the order of \<open>Object.entries(bankData.loans)\<close>.
\<close>

definition findOpenLoans :: "bankData \<Rightarrow> jsval \<Rightarrow> jsval \<Rightarrow> loan list" where
  "findOpenLoans bd borrower lender =
     map snd
       (filter (\<lambda>p. eqName (Str (borrowerName (snd p))) borrower
                     \<and> eqName (Str (lenderName (snd p))) lender)
          (filter (\<lambda>p. status (snd p) \<noteq> ''resolved'') (loans bd)))"

text \<open>
  \<open>m.loanId\<close> for a loan record \<open>m\<close>: the records stored in \<open>bankData.loans\<close> have the
  properties \<open>borrowerName\<close>, \<open>lenderName\<close>, \<open>balance\<close>, \<open>status\<close>, \<open>timestamp\<close> and \<open>note\<close>,
  so the read gives \<open>undefined\<close>.
\<close>

definition loanIdOf :: "loan \<Rightarrow> jsval" where
  "loanIdOf l = Undefined"

definition orUnknown :: "string \<Rightarrow> string" where
  "orUnknown s = (if s = [] then ''Unknown'' else s)"

definition loanCommand :: "env \<Rightarrow> message \<Rightarrow> string list \<Rightarrow> bankData \<Rightarrow> bankData completion" where
  "loanCommand e m args bd =
     (if length args < 3 then returnSend e LoanUsage bd
      else if \<not> firstIsNumber m args \<and> length args < 4 then returnSend e LoanUsage bd
      else
        (let borrower = (if firstIsNumber m args then getDefaultNameForUser bd (author m)
                         else resolvePersonFromArgOrMention bd m (Some (args ! 0)));
             amountArg = (if firstIsNumber m args then args ! 0 else args ! 1);
             lenderArg = (if firstIsNumber m args then args ! 1 else args ! 2);
             noteArgs = (if firstIsNumber m args then drop 2 args else drop 3 args)
         in case parseAmount amountArg of
              None \<Rightarrow> returnSend e AmountMustBePositive bd
            | Some amnt \<Rightarrow>
                (let lender = trim lenderArg
                 in if lender = [] then returnSend e LenderEmpty bd
                    else
                      (let loanId = generateLoanId e;
                           nt = joinSpace noteArgs;
                           l = \<lparr>borrowerName = orUnknown borrower, lenderName = orUnknown lender,
                                balance = amnt, status = ''open'', loanTimestamp = now e,
                                loanNote = nt\<rparr>;
                           bd1 = bd\<lparr>loans := obj_set loanId l (loans bd)\<rparr>;
                           bd2 = recordLoanTransaction e (Str loanId) ''loan'' amnt
                                   (userId (author m)) (if nt = [] then ''Loan created'' else nt) bd1
                       in returnSend e
                            (LoanCreated (orUnknown borrower) (orUnknown lender) amnt nt) bd2))))"

text \<open>
  \<open>repayCommand\<close> and \<open>accrueCommand\<close> start with the same two blocks. The first reads the
  borrower name, the amount argument and the target argument (\<open>None\<close>: the usage text). It
  runs after the check \<open>args.length < 2\<close>.
\<close>

definition borrowerArgs ::
  "bankData \<Rightarrow> message \<Rightarrow> string list \<Rightarrow> (string \<times> string \<times> string) option" where
  "borrowerArgs bd m args =
     (if firstIsNumber m args then Some (getDefaultNameForUser bd (author m), args ! 0, args ! 1)
      else if length args < 3 then None
      else Some (resolvePersonFromArgOrMention bd m (Some (args ! 0)), args ! 1, args ! 2))"

text \<open>
  The second block (\<open>// Get loan ID\<close>) turns the target argument into a loan id, or
  answers. The call \<open>findOpenLoans({borrowerName: borrower.name, lenderName: lenderName})\<close>
  passes one object: it is the first parameter, and the second is \<open>undefined\<close>. The word
  \<open>cmd\<close> is the command named in the reply about several loans.
\<close>

definition targetLoanId :: "string \<Rightarrow> bankData \<Rightarrow> string \<Rightarrow> string \<Rightarrow> reply + jsval" where
  "targetLoanId cmd bd borrower targetArg =
     (if isLoanId bd (Str targetArg)
      then (case normalizeLoanId (Str targetArg) of Some k \<Rightarrow> Inr (Str k) | None \<Rightarrow> Inr Null)
      else (let lender = trim targetArg
            in if lender = [] then Inl LenderEmpty
               else (let matches = findOpenLoans bd
                                     (Obj [(''borrowerName'', borrower), (''lenderName'', lender)])
                                     Undefined
                     in if matches = [] then Inl (NoUnresolvedLoan borrower lender)
                        else if length matches > 1
                        then Inl (MultipleLoans cmd borrower lender
                                    (map (\<lambda>l. (loanIdOf l, loanNote l)) matches))
                        else Inr (loanIdOf (matches ! 0)))))"

definition repayCommand :: "env \<Rightarrow> message \<Rightarrow> string list \<Rightarrow> bankData \<Rightarrow> bankData completion" where
  "repayCommand e m args bd =
     (if length args < 2 then returnSend e RepayUsage bd
      else (case borrowerArgs bd m args of
              None \<Rightarrow> returnSend e RepayUsage bd
            | Some (borrower, amountArg, targetArg) \<Rightarrow>
                (case parseAmount amountArg of
                   None \<Rightarrow> returnSend e AmountMustBePositive bd
                 | Some amnt \<Rightarrow>
                     (case targetLoanId ''repay'' bd borrower targetArg of
                        Inl r \<Rightarrow> returnSend e r bd
                      | Inr loanId \<Rightarrow>
                          (case getLoan bd loanId of
                             None \<Rightarrow> returnSend e (LoanNotFound loanId) bd
                           | Some l \<Rightarrow>
                               (if status l = ''resolved''
                                then returnSend e (AlreadyResolved loanId) bd
                                else if \<not> eqName (Str (borrowerName l)) (Str borrower)
                                then returnSend e (NotBorrowersLoan loanId borrower) bd
                                else
                                  (let oldBal = balance l;
                                       newBal = max 0 (oldBal - amnt);
                                       bd1 = bd\<lparr>loans := obj_set (toStr loanId)
                                                            (l\<lparr>balance := newBal\<rparr>) (loans bd)\<rparr>;
                                       bd2 = recordLoanTransaction e loanId ''repay'' amnt
                                               (userId (author m)) [] bd1;
                                       extra = (if isLoanId bd2 (Str targetArg)
                                                then Some (loanNote l) else None);
                                       bd3 = (if newBal = 0
                                              then recordLoanTransaction e loanId ''resolve'' 0
                                                     (userId (author m)) ''Loan resolved''
                                                     (bd2\<lparr>loans := obj_set (toStr loanId)
                                                              (l\<lparr>balance := newBal,
                                                                 status := ''resolved''\<rparr>)
                                                              (loans bd2)\<rparr>)
                                              else bd2)
                                   in returnSend e
                                        (Repaid amnt (lenderName l) newBal oldBal extra (newBal = 0))
                                        bd3)))))))"

definition accrueCommand :: "env \<Rightarrow> message \<Rightarrow> string list \<Rightarrow> bankData \<Rightarrow> bankData completion" where
  "accrueCommand e m args bd =
     (if length args < 2 then returnSend e AccrueUsage bd
      else (case borrowerArgs bd m args of
              None \<Rightarrow> returnSend e AccrueUsage bd
            | Some (borrower, amountArg, targetArg) \<Rightarrow>
                (case parseAmount amountArg of
                   None \<Rightarrow> returnSend e AmountMustBePositive bd
                 | Some amnt \<Rightarrow>
                     (case targetLoanId ''accrue'' bd borrower targetArg of
                        Inl r \<Rightarrow> returnSend e r bd
                      | Inr loanId \<Rightarrow>
                          (case getLoan bd loanId of
                             None \<Rightarrow> returnSend e (LoanNotFound loanId) bd
                           | Some l \<Rightarrow>
                               (if status l = ''resolved''
                                then returnSend e (ResolvedCannotAccrue loanId) bd
                                else if \<not> eqName (Str (borrowerName l)) (Str borrower)
                                then returnSend e (NotBorrowersLoan loanId borrower) bd
                                else
                                  (let oldBal = balance l;
                                       newBal = oldBal + amnt;
                                       bd1 = bd\<lparr>loans := obj_set (toStr loanId)
                                                            (l\<lparr>balance := newBal\<rparr>) (loans bd)\<rparr>;
                                       bd2 = recordLoanTransaction e loanId ''accrue'' amnt
                                               (userId (author m)) [] bd1;
                                       extra = (if isLoanId bd2 (Str targetArg)
                                                then Some (loanNote l) else None)
                                   in returnSend e
                                        (Accrued amnt (lenderName l) newBal oldBal extra) bd2)))))))"

text \<open>\<open>xs.sort((a, b) => b.balance - a.balance)\<close>: a stable sort, largest first.\<close>

definition sortDesc :: "('a \<Rightarrow> int) \<Rightarrow> 'a list \<Rightarrow> 'a list" where
  "sortDesc f xs = sort_key (\<lambda>x. - f x) xs"

definition debtTarget :: "bankData \<Rightarrow> message \<Rightarrow> string list \<Rightarrow> string" where
  "debtTarget bd m args =
     (if args = [] then getDefaultNameForUser bd (author m)
      else if mentions m \<noteq> [] then getDefaultNameForUser bd (hd (mentions m))
      else trim (args ! 0))"

text \<open>
  One line of the answer of \<open>debtCommand\<close> and \<open>debtorsCommand\<close>: the loan id, the balance,
  the name of the other party (\<open>"Unknown"\<close> when empty) and the note of the loan.
\<close>

definition loanLine :: "(loan \<Rightarrow> string) \<Rightarrow> string \<times> loan \<Rightarrow> string \<times> int \<times> string \<times> string" where
  "loanLine party p = (fst p, balance (snd p), orUnknown (party (snd p)), loanNote (snd p))"

definition debtCommand :: "env \<Rightarrow> message \<Rightarrow> string list \<Rightarrow> bankData \<Rightarrow> bankData completion" where
  "debtCommand e m args bd =
     (let targetName = debtTarget bd m args;
          openLoans =
            sortDesc (\<lambda>x. fst (snd x))
              (filter (\<lambda>x. fst (snd x) > 0)
                 (map (loanLine lenderName)
                    (filter (\<lambda>p. eqName (Str (borrowerName (snd p))) (Str targetName))
                       (filter (\<lambda>p. status (snd p) \<noteq> ''resolved'') (loans bd)))))
      in if openLoans = [] then returnSend e (NoLoansOfBorrower targetName) bd
         else returnSend e
                (LoansOfBorrower targetName openLoans (sum_list (map (\<lambda>x. fst (snd x)) openLoans)))
                bd)"

text \<open>
  In \<open>debtorsCommand\<close> a target given by mention, or no argument at all, sets
  \<open>targetUser\<close>; the filter then compares \<open>loan.lenderId\<close>, a property no loan record has,
  with the user's id, which is never equal.
\<close>

definition debtorsCommand :: "env \<Rightarrow> message \<Rightarrow> string list \<Rightarrow> bankData \<Rightarrow> bankData completion" where
  "debtorsCommand e m args bd =
     (let targetName = debtTarget bd m args;
          byUser = (args = [] \<or> mentions m \<noteq> []);
          openLoans =
            sortDesc (\<lambda>x. fst (snd x))
              (filter (\<lambda>x. fst (snd x) > 0)
                 (map (loanLine borrowerName)
                    (filter (\<lambda>p. \<not> byUser \<and> eqName (Str (lenderName (snd p))) (Str targetName))
                       (filter (\<lambda>p. status (snd p) \<noteq> ''resolved'') (loans bd)))))
      in if openLoans = [] then returnSend e (NoLoansOfLender targetName) bd
         else returnSend e
                (LoansOfLender targetName openLoans (sum_list (map (\<lambda>x. fst (snd x)) openLoans)))
                bd)"

section \<open>Aggregation views\<close>

text \<open>\<open>xs.slice(0, limit)\<close>\<close>

definition sliceTo :: "int \<Rightarrow> 'a list \<Rightarrow> 'a list" where
  "sliceTo limit xs =
     (let len = int (length xs);
          k = (if limit < 0 then max (len + limit) 0 else min limit len)
      in take (nat k) xs)"

definition getTopGpEntries :: "bankData \<Rightarrow> int \<Rightarrow> (string \<times> int) list" where
  "getTopGpEntries bd limit = sliceTo limit (sortDesc snd (filter (\<lambda>p. snd p > 0) (balances bd)))"

text \<open>
  The loop of \<open>getTopDebtEntries\<close> over one loan: \<open>debtByBorrower\<close> maps a borrower name to
  an object \<open>{debt}\<close>.
\<close>

record debtRow =
  debt :: int

definition addDebt :: "loan \<Rightarrow> debtRow obj \<Rightarrow> debtRow obj" where
  "addDebt l debtByBorrower =
     (if status l = ''resolved'' then debtByBorrower
      else if balance l \<le> 0 then debtByBorrower
      else (let nm = orUnknown (borrowerName l);
                d = (case obj_get debtByBorrower nm of None \<Rightarrow> 0 | Some row \<Rightarrow> debt row)
            in obj_set nm \<lparr>debt = d + balance l\<rparr> debtByBorrower))"

text \<open>The object \<open>debtByBorrower\<close> when the loop has run over \<open>Object.entries(bankData.loans)\<close>.\<close>

definition debtByBorrower :: "bankData \<Rightarrow> debtRow obj" where
  "debtByBorrower bd = foldl (\<lambda>acc p. addDebt (snd p) acc) [] (loans bd)"

text \<open>
  \<open>getTopDebtEntries(limit)\<close> returns \<open>Object.values(debtByBorrower)\<close>, filtered, sorted and
  cut: each entry is an object \<open>{debt}\<close>, and the key it was stored under is dropped.
\<close>

definition getTopDebtEntries :: "bankData \<Rightarrow> int \<Rightarrow> debtRow list" where
  "getTopDebtEntries bd limit =
     sliceTo limit (sortDesc debt (filter (\<lambda>v. debt v > 0) (map snd (debtByBorrower bd))))"

text \<open>
  The loans that count towards the debt of the borrower name \<open>nm\<close>, and the debt stored
  under a name (0 when the name is not a key).
\<close>

definition owes :: "string \<Rightarrow> loan \<Rightarrow> bool" where
  "owes nm l = (status l \<noteq> ''resolved'' \<and> 0 < balance l \<and> orUnknown (borrowerName l) = nm)"

definition debtOf :: "debtRow obj \<Rightarrow> string \<Rightarrow> int" where
  "debtOf acc nm = (case obj_get acc nm of None \<Rightarrow> 0 | Some row \<Rightarrow> debt row)"

text \<open>\<open>row.name\<close> for an entry of \<open>getTopDebtEntries\<close>, which has the one property \<open>debt\<close>.\<close>

definition rowName :: "debtRow \<Rightarrow> jsval" where
  "rowName row = Undefined"

definition leaderboardCount :: "string list \<Rightarrow> int" where
  "leaderboardCount args =
     (if args = [] \<or> args ! 0 = [] then 10
      else (case Number (args ! 0) of
              Finite n \<Rightarrow> (if n > 0 then min 10 \<lfloor>n\<rfloor> else 10)
            | _ \<Rightarrow> 10))"

definition leaderboardCommand :: "env \<Rightarrow> string list \<Rightarrow> bankData \<Rightarrow> bankData completion" where
  "leaderboardCommand e args bd =
     (let cnt = leaderboardCount args;
          gpEntries = getTopGpEntries bd cnt;
          debtEntries = getTopDebtEntries bd cnt
      in if gpEntries = [] \<and> debtEntries = [] then returnSend e NoLeaderboard bd
         else returnSend e
                (Leaderboard gpEntries (map (\<lambda>row. (rowName row, debt row)) debtEntries)) bd)"

section \<open>Snapshot store\<close>

text \<open>
  The data file holds \<open>JSON.stringify(bankData)\<close>. \<open>json\<close> is a value as \<open>JSON.parse\<close>
  returns it; an object lists its properties in the order of its keys.
\<close>

datatype json = JNull | JBool bool | JNum rat | JStr string | JArr "json list"
  | JObj "(string \<times> json) list"

text \<open>The data file: absent, not parsable, or the text of a JSON object.\<close>

datatype fileState = Missing | Unparsable | Parsed "json obj"

text \<open>\<open>!v\<close> is false for the values that are not \<open>null\<close>, \<open>false\<close>, \<open>0\<close> or \<open>""\<close>.\<close>

definition jsonTruthy :: "json \<Rightarrow> bool" where
  "jsonTruthy v =
     (case v of JNull \<Rightarrow> False | JBool b \<Rightarrow> b | JNum q \<Rightarrow> q \<noteq> 0 | JStr s \<Rightarrow> s \<noteq> []
      | JArr _ \<Rightarrow> True | JObj _ \<Rightarrow> True)"

text \<open>\<open>if (!bankData.k) bankData.k = {}\<close>\<close>

definition ensureKey :: "string \<Rightarrow> json obj \<Rightarrow> json obj" where
  "ensureKey k d =
     (case obj_get d k of
        None \<Rightarrow> obj_set k (JObj []) d
      | Some v \<Rightarrow> (if jsonTruthy v then d else obj_set k (JObj []) d))"

text \<open>The object \<open>d\<close> has the property \<open>k\<close>, and \<open>!d.k\<close> is false.\<close>

definition present :: "json obj \<Rightarrow> string \<Rightarrow> bool" where
  "present d k = (case obj_get d k of None \<Rightarrow> False | Some v \<Rightarrow> jsonTruthy v)"

text \<open>The top-level keys that \<open>loadData\<close> looks at, in its order.\<close>

definition topLevelKeys :: "string list" where
  "topLevelKeys = [''balances'', ''transactions'', ''profiles'', ''loans'', ''loanTransactions'']"

text \<open>
  \<open>loadData()\<close>: the new value of \<open>bankData\<close>, given the file and the current value. When
  the file is absent, or \<open>JSON.parse\<close> throws, \<open>bankData\<close> stays as it is.
\<close>

definition loadData :: "fileState \<Rightarrow> json obj \<Rightarrow> json obj" where
  "loadData f current =
     (case f of
        Parsed d \<Rightarrow>
          ensureKey ''loanTransactions''
            (ensureKey ''loans''
               (ensureKey ''profiles''
                  (ensureKey ''transactions''
                     (ensureKey ''balances'' d))))
      | _ \<Rightarrow> current)"

text \<open>
  \<open>saveData()\<close>: the file after the call. A write that fails is caught and logged, and
  leaves the file as it was.
\<close>

definition saveData :: "env \<Rightarrow> json obj \<Rightarrow> fileState \<Rightarrow> fileState" where
  "saveData e d f = (if writeOk e then Parsed d else f)"

text \<open>The object that the records of this theory stand for.\<close>

definition txJson :: "transaction \<Rightarrow> json" where
  "txJson x =
     JObj [(''timestamp'', JStr (timestamp x)), (''type'', JStr (txType x)),
           (''amount'', JNum (of_int (amount x))), (''actorId'', JStr (actorId x)),
           (''note'', JStr (txNote x))]"

definition loanJson :: "loan \<Rightarrow> json" where
  "loanJson l =
     JObj [(''borrowerName'', JStr (borrowerName l)), (''lenderName'', JStr (lenderName l)),
           (''balance'', JNum (of_int (balance l))), (''status'', JStr (status l)),
           (''timestamp'', JStr (loanTimestamp l)), (''note'', JStr (loanNote l))]"

definition mapValues :: "('a \<Rightarrow> json) \<Rightarrow> 'a obj \<Rightarrow> json" where
  "mapValues f ob = JObj (map (\<lambda>p. (fst p, f (snd p))) ob)"

definition toJson :: "bankData \<Rightarrow> json obj" where
  "toJson bd =
     [(''balances'', mapValues (\<lambda>b. JNum (of_int b)) (balances bd)),
      (''transactions'', mapValues (\<lambda>l. JArr (map txJson l)) (transactions bd)),
      (''profiles'', mapValues (\<lambda>p. JObj [(''name'', JStr (profileName p))]) (profiles bd)),
      (''loans'', mapValues loanJson (loans bd)),
      (''loanTransactions'', mapValues (\<lambda>l. JArr (map txJson l)) (loanTransactions bd))]"

section \<open>Command handling\<close>

text \<open>The module state: the flag \<open>busy\<close>, \<open>bankData\<close>, and the data file.\<close>

record world =
  busy :: bool
  bankData :: bankData
  dataFile :: fileState

definition saveWorld :: "env \<Rightarrow> world \<Rightarrow> world" where
  "saveWorld e w = w\<lparr>dataFile := saveData e (toJson (bankData w)) (dataFile w)\<rparr>"

definition exportDbCommand :: "env \<Rightarrow> world \<Rightarrow> world completion" where
  "exportDbCommand e w =
     (if dataFile w = Missing then returnSend e DatabaseNotFound w
      else returnSend e DatabaseFile w)"

definition setDefaultNameForUser :: "user \<Rightarrow> string \<Rightarrow> bankData \<Rightarrow> bankData" where
  "setDefaultNameForUser u nm bd =
     bd\<lparr>profiles :=
          obj_set (userId u)
            \<lparr>profileName = trim (take 32 (takeWhile (\<lambda>c. c \<noteq> CHR '' '') nm))\<rparr>
            (profiles bd)\<rparr>"

definition setNameCommand :: "env \<Rightarrow> message \<Rightarrow> string list \<Rightarrow> world \<Rightarrow> world completion" where
  "setNameCommand e m args w =
     (if args = [] then returnSend e SetNameUsage w
      else (let nm = trim (joinSpace args)
            in if nm = [] then returnSend e NameEmpty w
               else if length nm > 32 then returnSend e NameTooLong w
               else detachedSend (NameSet nm)
                      (saveWorld e
                         (w\<lparr>bankData := setDefaultNameForUser (author m) nm (bankData w)\<rparr>))))"

text \<open>A command that reads \<open>bankData\<close> and leaves the rest of the module state alone.\<close>

definition onData :: "(bankData \<Rightarrow> bankData completion) \<Rightarrow> world \<Rightarrow> world completion" where
  "onData cmd w =
     (case cmd (bankData w) of
        Returned r bd \<Rightarrow> Returned r (w\<lparr>bankData := bd\<rparr>)
      | Threw r bd \<Rightarrow> Threw r (w\<lparr>bankData := bd\<rparr>))"

text \<open>
  The block that \<open>processCommand\<close> runs for \<open>deposit\<close> and \<open>withdraw\<close>, and again for
  \<open>loan\<close>, \<open>repay\<close> and \<open>accrue\<close>:
  \<^verbatim>\<open>
    if (busy) return receivedMessage.channel.send("Busy ...");
    busy = true;
    try { await command(receivedMessage, args); saveData(); }
    finally { busy = false; }
    return;
  \<close>
\<close>

definition gated :: "env \<Rightarrow> (bankData \<Rightarrow> bankData completion) \<Rightarrow> world \<Rightarrow> world completion" where
  "gated e cmd w =
     (if busy w then returnSend e Busy w
      else (case cmd (bankData (w\<lparr>busy := True\<rparr>)) of
              Returned r bd \<Rightarrow>
                Returned r ((saveWorld e (w\<lparr>busy := True, bankData := bd\<rparr>))\<lparr>busy := False\<rparr>)
            | Threw r bd \<Rightarrow> Threw r (w\<lparr>busy := False, bankData := bd\<rparr>)))"

text \<open>The command word and the arguments of a message, as \<open>processCommand\<close> computes them.\<close>

definition splitCommand :: "message \<Rightarrow> string list" where
  "splitCommand m = splitWs [] (trim (drop 1 (content m)))"

definition primaryCommand :: "message \<Rightarrow> string" where
  "primaryCommand m = (case splitCommand m of [] \<Rightarrow> [] | c # _ \<Rightarrow> toLowerCase c)"


definition processCommand :: "env \<Rightarrow> message \<Rightarrow> world \<Rightarrow> world completion" where
  "processCommand e m w =
     (if trim (drop 1 (content m)) = [] then Returned NoReply w
      else (let pc = primaryCommand m; args = tl (splitCommand m)
            in if pc = ''help'' then detachedSend HelpText w
               else if pc = ''exportdb'' then exportDbCommand e w
               else if pc = ''setname'' then setNameCommand e m args w
               else if pc = ''deposit'' then gated e (depositCommand e m args) w
               else if pc = ''withdraw'' then gated e (withdrawCommand e m args) w
               else if pc = ''balance'' then onData (balanceCommand m args) w
               else if pc = ''loan'' then gated e (loanCommand e m args) w
               else if pc = ''repay'' then gated e (repayCommand e m args) w
               else if pc = ''accrue'' then gated e (accrueCommand e m args) w
               else if pc = ''debt'' then onData (debtCommand e m args) w
               else if pc = ''debtors'' then onData (debtorsCommand e m args) w
               else if pc = ''history'' then onData (historyCommand e m args) w
               else if pc = ''leaderboard'' then onData (leaderboardCommand e args) w
               else detachedSend UnknownCommand w))"

text \<open>
  The handler of \<open>Events.MessageCreate\<close>: messages of bots and messages without the
  prefix \<open>!\<close> are ignored; when \<open>processCommand\<close> throws, the handler answers and clears
  \<open>busy\<close>. The result is the module state and the reply of the command, if any.
\<close>

definition onMessage :: "env \<Rightarrow> message \<Rightarrow> world \<Rightarrow> world \<times> reply option" where
  "onMessage e m w =
     (if bot (author m) then (w, None)
      else if take 1 (content m) \<noteq> ''!'' then (w, None)
      else (case processCommand e m w of
              Returned r w' \<Rightarrow> (w', Some r)
            | Threw r w' \<Rightarrow> (w'\<lparr>busy := False\<rparr>, Some SomethingWentWrong)))"

section \<open>Runs of the bot\<close>

text \<open>The module state after a list of messages, each with the clock it is handled at.\<close>

fun runMessages :: "(env \<times> message) list \<Rightarrow> world \<Rightarrow> world" where
  "runMessages [] w = w"
| "runMessages (x # xs) w = runMessages xs (fst (onMessage (fst x) (snd x) w))"

text \<open>Every loan has a lender name that is not blank.\<close>

definition lendersNamed :: "bankData \<Rightarrow> bool" where
  "lendersNamed bd = list_all (\<lambda>p. trim (lenderName (snd p)) \<noteq> []) (loans bd)"

section \<open>Runs of the ledger\<close>

text \<open>
  A deposit or a withdrawal, with the clock, the message and the arguments it is called
  with; a run applies a list of them in order and collects the replies.
\<close>

datatype ledgerOp = DepositOp env message "string list" | WithdrawOp env message "string list"

fun applyOp :: "ledgerOp \<Rightarrow> bankData \<Rightarrow> bankData completion" where
  "applyOp (DepositOp e m args) bd = depositCommand e m args bd"
| "applyOp (WithdrawOp e m args) bd = withdrawCommand e m args bd"

fun runOps :: "ledgerOp list \<Rightarrow> bankData \<Rightarrow> reply list \<times> bankData" where
  "runOps [] bd = ([], bd)"
| "runOps (x # xs) bd =
     (let c = applyOp x bd; rest = runOps xs (stateOf c) in (replyOf c # fst rest, snd rest))"




section \<open>Example inputs\<close>

text \<open>A user, two readings of the clock, and a message typed by a user with no mention.\<close>

definition vani :: user where
  "vani = \<lparr>userId = ''1001'', username = ''Vani'', bot = False\<rparr>"

definition clock1 :: env where
  "clock1 = \<lparr>now = ''2024-01-01T10:00:00.000Z'', nowBase36 = ''lqu5a2o0'',
             nowDecimal = ''1704103200000'', randomSuffix = ''k3x9ab'',
             sendOk = True, writeOk = True\<rparr>"

definition clock2 :: env where
  "clock2 = \<lparr>now = ''2024-01-02T10:00:00.000Z'', nowBase36 = ''lqvkpxc0'',
             nowDecimal = ''1704189600000'', randomSuffix = ''p07qzt'',
             sendOk = True, writeOk = True\<rparr>"


definition says :: "user \<Rightarrow> string \<Rightarrow> message" where
  "says u txt = \<lparr>author = u, mentions = [], content = txt\<rparr>"

text \<open>The module state when the bot starts without a data file.\<close>

definition freshWorld :: world where
  "freshWorld = \<lparr>busy = False, bankData = initialData, dataFile = Missing\<rparr>"

text \<open>The state after \<open>!deposit 30 loot\<close> typed by Vani.\<close>

definition vaniHas30 :: bankData where
  "vaniHas30 = stateOf (depositCommand clock1 (says vani ''!deposit 30 loot'') [''30'', ''loot'']
                          initialData)"

text \<open>
  The state after \<open>!loan 100 Vixil sword\<close> typed by Vani, and the state after a second
  loan from the same lender, \<open>!loan 70 Vixil shield\<close>, a day later.
\<close>

definition oneLoan :: bankData where
  "oneLoan = stateOf (loanCommand clock1 (says vani ''!loan 100 Vixil sword'')
                        [''100'', ''Vixil'', ''sword''] initialData)"

definition twoLoans :: bankData where
  "twoLoans = stateOf (loanCommand clock2 (says vani ''!loan 70 Vixil shield'')
                         [''70'', ''Vixil'', ''shield''] oneLoan)"

text \<open>The state after the first loan has been repaid in full.\<close>

definition loanRepaid :: bankData where
  "loanRepaid = stateOf (repayCommand clock2 (says vani ''!repay 100 loan_lqu5a2o0_k3x9ab'')
                           [''100'', ''loan_lqu5a2o0_k3x9ab''] oneLoan)"

text \<open>The state after 21 deposits of 1 typed by Vani.\<close>

definition manyDeposits :: bankData where
  "manyDeposits =
     snd (runOps (replicate 21 (DepositOp clock1 (says vani ''!deposit 1 tip'') [''1'', ''tip'']))
            initialData)"

text \<open>A snapshot written before loans existed: it has the first three keys only.\<close>

definition oldSnapshot :: "json obj" where
  "oldSnapshot =
     [(''balances'', JObj [(''Vani'', JNum 30)]),
      (''transactions'', JObj []),
      (''profiles'', JObj [])]"

section \<open>Properties of the objects and the utilities\<close>

lemma map_of_addProperty:
  "map_of ob k = None \<Longrightarrow>
   map_of (addProperty k v ob) k' = (if k' = k then Some v else map_of ob k')"
proof (induction ob)
  case Nil
  then show ?case by simp
next
  case (Cons p ps)
  then show ?case by (cases p) (auto split: option.splits if_splits)
qed

lemma map_of_replace:
  "map_of (map (\<lambda>p. if fst p = k then (k, v) else p) ob) k' =
     (if k' = k then map_option (\<lambda>_. v) (map_of ob k) else map_of ob k')"
  by (induction ob) auto

lemma obj_get_set: "obj_get (obj_set k v ob) k' = (if k' = k then Some v else obj_get ob k')"
  unfolding obj_get_def obj_set_def
  by (cases "map_of ob k") (auto simp: map_of_addProperty map_of_replace)







section \<open>Amounts\<close>

text \<open>
  An accepted amount is an integer that is not negative; it is 0 exactly for the numbers
  between 0 and 1.
\<close>

lemma parseAmount_zero_iff:
  "parseAmount s = Some 0 \<longleftrightarrow> s \<noteq> [] \<and> (\<exists>n. Number s = Finite n \<and> 0 < n \<and> n < 1)"
  by (auto simp: parseAmount_def floor_eq_iff split: number.splits)

text \<open>
  Claim C2. Every amount that \<open>parseAmount\<close> accepts is applied and recorded as a positive
  integer. The program does not do this: \<open>parseAmount\<close> compares the number with zero
  before it takes the floor, so \<open>"0.5"\<close> is accepted as the amount 0, and
  \<open>!deposit 0.5 tip\<close> appends a deposit of 0 to the log of the account.
\<close>

theorem parseAmount_fraction_is_zero:
  "parseAmount ''0.5'' = Some 0
   \<and> depositCommand clock1 (says vani ''!deposit 0.5 tip'') [''0.5'', ''tip''] initialData =
       Returned (Deposited 0 ''Vani'' 0 0)
         (initialData\<lparr>balances := [(''Vani'', 0)],
            transactions :=
              [(''Vani'', [\<lparr>timestamp = ''2024-01-01T10:00:00.000Z'', txType = ''deposit'',
                            amount = 0, actorId = ''1001'', txNote = ''tip''\<rparr>])]\<rparr>)"
  by code_simp

section \<open>Withdrawals\<close>



section \<open>Balances\<close>






section \<open>Loans\<close>

lemma loans_recordLoanTransaction:
  "loans (recordLoanTransaction e i ty amnt actor nt bd) = loans bd"
  by (simp add: recordLoanTransaction_def)

lemma txList_recordLoanTransaction:
  "txList (loanTransactions (recordLoanTransaction e i ty amnt actor nt bd)) k =
     (if k = toStr i
      then txList (loanTransactions bd) k @
             [\<lparr>timestamp = now e, txType = ty, amount = amnt, actorId = actor, txNote = nt\<rparr>]
      else txList (loanTransactions bd) k)"
  by (simp add: recordLoanTransaction_def txList_def obj_get_set)

lemma targetLoanId_Inl:
  "targetLoanId cmd bd b tg = Inl r \<Longrightarrow>
   r = LenderEmpty \<or> (\<exists>x y. r = NoUnresolvedLoan x y) \<or> (\<exists>x y z. r = MultipleLoans cmd x y z)"
  by (auto simp: targetLoanId_def Let_def split: if_splits option.splits)

lemma targetLoanId_Inr_any:
  "targetLoanId cmd bd b tg = Inr i \<Longrightarrow> targetLoanId cmd' bd b tg = Inr i"
  by (auto simp: targetLoanId_def Let_def split: if_splits option.splits)



text \<open>The checks are the only way to the reply of a repayment.\<close>

lemma repay_success_only_if:
  assumes "replyOf (repayCommand e m args bd) = Repaid a lnd nb ob ex rs"
  shows "\<exists>borrower amountArg targetArg loanId l.
           2 \<le> length args
         \<and> borrowerArgs bd m args = Some (borrower, amountArg, targetArg)
         \<and> parseAmount amountArg = Some a
         \<and> targetLoanId ''repay'' bd borrower targetArg = Inr loanId
         \<and> getLoan bd loanId = Some l
         \<and> status l \<noteq> ''resolved''
         \<and> eqName (Str (borrowerName l)) (Str borrower)"
  using assms
  by (auto simp: repayCommand_def Let_def returnSend_def replyOf_def
      split: if_splits option.splits prod.splits sum.splits dest: targetLoanId_Inl)

subsection \<open>Resolved loans\<close>

lemma repay_keeps_resolved:
  assumes "obj_get (loans bd) k = Some l" and "status l = ''resolved''"
  shows "obj_get (loans (stateOf (repayCommand e m args bd))) k = Some l
       \<and> txList (loanTransactions (stateOf (repayCommand e m args bd))) k =
           txList (loanTransactions bd) k"
  using assms
  by (auto simp: repayCommand_def Let_def returnSend_def stateOf_def getLoan_def obj_get_set
      loans_recordLoanTransaction txList_recordLoanTransaction
      split: if_splits option.splits prod.splits sum.splits)

lemma accrue_keeps_resolved:
  assumes "obj_get (loans bd) k = Some l" and "status l = ''resolved''"
  shows "obj_get (loans (stateOf (accrueCommand e m args bd))) k = Some l
       \<and> txList (loanTransactions (stateOf (accrueCommand e m args bd))) k =
           txList (loanTransactions bd) k"
  using assms
  by (auto simp: accrueCommand_def Let_def returnSend_def stateOf_def getLoan_def obj_get_set
      loans_recordLoanTransaction txList_recordLoanTransaction
      split: if_splits option.splits prod.splits sum.splits)

lemma loan_keeps_others:
  assumes "generateLoanId e \<noteq> k"
  shows "obj_get (loans (stateOf (loanCommand e m args bd))) k = obj_get (loans bd) k
       \<and> txList (loanTransactions (stateOf (loanCommand e m args bd))) k =
           txList (loanTransactions bd) k"
  using assms
  by (auto simp: loanCommand_def Let_def returnSend_def stateOf_def obj_get_set toStr_def
      loans_recordLoanTransaction txList_recordLoanTransaction
      split: if_splits option.splits)

lemma deposit_keeps_loans:
  "loans (stateOf (depositCommand e m args bd)) = loans bd
   \<and> loanTransactions (stateOf (depositCommand e m args bd)) = loanTransactions bd"
  by (auto simp: depositCommand_def Let_def returnSend_def detachedSend_def stateOf_def
      setBalance_def recordTransaction_def split: option.splits prod.splits)

lemma withdraw_keeps_loans:
  "loans (stateOf (withdrawCommand e m args bd)) = loans bd
   \<and> loanTransactions (stateOf (withdrawCommand e m args bd)) = loanTransactions bd"
  by (auto simp: withdrawCommand_def Let_def returnSend_def detachedSend_def stateOf_def
      setBalance_def recordTransaction_def split: option.splits prod.splits)

lemma stateOf_gated:
  "bankData (stateOf (gated e cmd w)) = (if busy w then bankData w else stateOf (cmd (bankData w)))"
  by (auto simp: gated_def returnSend_def stateOf_def saveWorld_def split: completion.splits)

lemma stateOf_onData: "bankData (stateOf (onData cmd w)) = stateOf (cmd (bankData w))"
  by (auto simp: onData_def stateOf_def split: completion.splits)

lemma readers_keep_state:
  "stateOf (balanceCommand m args bd) = bd"
  "stateOf (debtCommand e m args bd) = bd"
  "stateOf (debtorsCommand e m args bd) = bd"
  "stateOf (historyCommand e m args bd) = bd"
  "stateOf (leaderboardCommand e args bd) = bd"
  by (simp_all add: balanceCommand_def debtCommand_def debtorsCommand_def historyCommand_def
      leaderboardCommand_def Let_def returnSend_def detachedSend_def stateOf_def)

lemma setName_keeps_loans:
  "loans (bankData (stateOf (setNameCommand e m args w))) = loans (bankData w)
   \<and> loanTransactions (bankData (stateOf (setNameCommand e m args w))) =
       loanTransactions (bankData w)"
  by (simp add: setNameCommand_def Let_def returnSend_def detachedSend_def stateOf_def
      saveWorld_def setDefaultNameForUser_def)

lemma exportDb_keeps_state: "stateOf (exportDbCommand e w) = w"
  by (simp add: exportDbCommand_def returnSend_def stateOf_def)

lemma process_keeps_resolved:
  assumes "obj_get (loans (bankData w)) k = Some l" and "status l = ''resolved''"
    and "primaryCommand m = ''loan'' \<longrightarrow> generateLoanId e \<noteq> k"
  shows "obj_get (loans (bankData (stateOf (processCommand e m w)))) k = Some l
       \<and> txList (loanTransactions (bankData (stateOf (processCommand e m w)))) k =
           txList (loanTransactions (bankData w)) k"
  using assms repay_keeps_resolved[of "bankData w" k l e m "tl (splitCommand m)"]
    accrue_keeps_resolved[of "bankData w" k l e m "tl (splitCommand m)"]
    loan_keeps_others[of e k m "tl (splitCommand m)" "bankData w"]
    deposit_keeps_loans[of e m "tl (splitCommand m)" "bankData w"]
    withdraw_keeps_loans[of e m "tl (splitCommand m)" "bankData w"]
    setName_keeps_loans[of e m "tl (splitCommand m)" w]
  by (simp add: processCommand_def Let_def stateOf_gated stateOf_onData readers_keep_state
      exportDb_keeps_state detachedSend_def) (simp add: stateOf_def)

lemma resolved_is_rejected:
  assumes "2 \<le> length args"
    and "borrowerArgs bd m args = Some (borrower, amountArg, targetArg)"
    and "parseAmount amountArg = Some amnt"
    and "targetLoanId cmd bd borrower targetArg = Inr loanId"
    and "getLoan bd loanId = Some l"
    and "status l = ''resolved''"
  shows "repayCommand e m args bd = returnSend e (AlreadyResolved loanId) bd"
    and "accrueCommand e m args bd = returnSend e (ResolvedCannotAccrue loanId) bd"
  using assms targetLoanId_Inr_any[OF assms(4), of "''repay''"]
    targetLoanId_Inr_any[OF assms(4), of "''accrue''"]
  by (simp_all add: repayCommand_def accrueCommand_def)

text \<open>
  Claim C6, as the program has it. A repayment or an accrual whose target is a resolved
  loan is answered that the loan is resolved, and the state stays as it is. No command
  changes a resolved loan or its log, provided the id that \<open>generateLoanId\<close> makes for a
  new loan is not the id of that loan: \<open>loanCommand\<close> stores the new loan under the
  generated id without looking whether the id is in use.
\<close>

theorem resolved_loan_is_final:
  "(2 \<le> length args
      \<and> borrowerArgs bd m args = Some (borrower, amountArg, targetArg)
      \<and> parseAmount amountArg = Some amnt
      \<and> targetLoanId cmd bd borrower targetArg = Inr loanId
      \<and> getLoan bd loanId = Some l
      \<and> status l = ''resolved''
    \<longrightarrow> replyOf (repayCommand e m args bd) = AlreadyResolved loanId
        \<and> stateOf (repayCommand e m args bd) = bd
        \<and> replyOf (accrueCommand e m args bd) = ResolvedCannotAccrue loanId
        \<and> stateOf (accrueCommand e m args bd) = bd)
   \<and> (obj_get (loans (bankData w)) k = Some l'
      \<and> status l' = ''resolved''
      \<and> (primaryCommand m' = ''loan'' \<longrightarrow> generateLoanId e' \<noteq> k)
    \<longrightarrow> obj_get (loans (bankData (stateOf (processCommand e' m' w)))) k = Some l'
        \<and> txList (loanTransactions (bankData (stateOf (processCommand e' m' w)))) k =
            txList (loanTransactions (bankData w)) k)"
proof -
  have rejected: "replyOf (repayCommand e m args bd) = AlreadyResolved loanId
        \<and> stateOf (repayCommand e m args bd) = bd
        \<and> replyOf (accrueCommand e m args bd) = ResolvedCannotAccrue loanId
        \<and> stateOf (accrueCommand e m args bd) = bd"
    if "2 \<le> length args" "borrowerArgs bd m args = Some (borrower, amountArg, targetArg)"
      "parseAmount amountArg = Some amnt" "targetLoanId cmd bd borrower targetArg = Inr loanId"
      "getLoan bd loanId = Some l" "status l = ''resolved''"
    using resolved_is_rejected[OF that, of e]
    by (simp add: returnSend_def replyOf_def stateOf_def)
  show ?thesis
    using rejected process_keeps_resolved[of w k l' m' e'] by blast
qed

theorem resolved_loan_is_final_witness:
  "getLoan loanRepaid (Str ''loan_lqu5a2o0_k3x9ab'') =
     Some \<lparr>borrowerName = ''Vani'', lenderName = ''Vixil'', balance = 0, status = ''resolved'',
            loanTimestamp = ''2024-01-01T10:00:00.000Z'', loanNote = ''sword''\<rparr>
   \<and> replyOf (repayCommand clock2 (says vani ''!repay 150 loan_lqu5a2o0_k3x9ab'')
               [''150'', ''loan_lqu5a2o0_k3x9ab''] loanRepaid) =
       AlreadyResolved (Str ''loan_lqu5a2o0_k3x9ab'')
   \<and> stateOf (repayCommand clock2 (says vani ''!repay 150 loan_lqu5a2o0_k3x9ab'')
               [''150'', ''loan_lqu5a2o0_k3x9ab''] loanRepaid) = loanRepaid
   \<and> replyOf (accrueCommand clock2 (says vani ''!accrue 10 loan_lqu5a2o0_k3x9ab'')
               [''10'', ''loan_lqu5a2o0_k3x9ab''] loanRepaid) =
       ResolvedCannotAccrue (Str ''loan_lqu5a2o0_k3x9ab'')
   \<and> stateOf (accrueCommand clock2 (says vani ''!accrue 10 loan_lqu5a2o0_k3x9ab'')
               [''10'', ''loan_lqu5a2o0_k3x9ab''] loanRepaid) = loanRepaid
   \<and> generateLoanId clock2 \<noteq> ''loan_lqu5a2o0_k3x9ab''
   \<and> map_option status
        (obj_get (loans (bankData (stateOf (processCommand clock2
                     (says vani ''!loan 5 Vixil again'') (freshWorld\<lparr>bankData := loanRepaid\<rparr>)))))
           ''loan_lqu5a2o0_k3x9ab'') = Some ''resolved''"
proof -
  let ?r = "says vani ''!repay 150 loan_lqu5a2o0_k3x9ab''"
  let ?rargs = "[''150'', ''loan_lqu5a2o0_k3x9ab'']"
  let ?a = "says vani ''!accrue 10 loan_lqu5a2o0_k3x9ab''"
  let ?aargs = "[''10'', ''loan_lqu5a2o0_k3x9ab'']"
  let ?l = "\<lparr>borrowerName = ''Vani'', lenderName = ''Vixil'', balance = 0, status = ''resolved'',
             loanTimestamp = ''2024-01-01T10:00:00.000Z'', loanNote = ''sword''\<rparr>"
  let ?w = "freshWorld\<lparr>bankData := loanRepaid\<rparr>"
  have len: "2 \<le> length ?rargs" "2 \<le> length ?aargs"
    by simp_all
  have parsed:
    "borrowerArgs loanRepaid ?r ?rargs = Some (''Vani'', ''150'', ''loan_lqu5a2o0_k3x9ab'')"
    "borrowerArgs loanRepaid ?a ?aargs = Some (''Vani'', ''10'', ''loan_lqu5a2o0_k3x9ab'')"
    by code_simp+
  have amt: "parseAmount ''150'' = Some 150" "parseAmount ''10'' = Some 10"
    by code_simp+
  have target: "targetLoanId ''repay'' loanRepaid ''Vani'' ''loan_lqu5a2o0_k3x9ab'' =
                  Inr (Str ''loan_lqu5a2o0_k3x9ab'')"
    by code_simp
  have found: "getLoan loanRepaid (Str ''loan_lqu5a2o0_k3x9ab'') = Some ?l"
    by code_simp
  have closed: "status ?l = ''resolved''"
    by simp
  have stored: "obj_get (loans (bankData ?w)) ''loan_lqu5a2o0_k3x9ab'' = Some ?l"
    by code_simp
  have fresh: "generateLoanId clock2 \<noteq> ''loan_lqu5a2o0_k3x9ab''"
    by code_simp
  show ?thesis
    using resolved_loan_is_final[of ?rargs loanRepaid ?r "''Vani''" "''150''"
        "''loan_lqu5a2o0_k3x9ab''" 150 "''repay''" "Str ''loan_lqu5a2o0_k3x9ab''" ?l clock2
        ?w "''loan_lqu5a2o0_k3x9ab''" ?l "says vani ''!loan 5 Vixil again''" clock2]
      resolved_loan_is_final[of ?aargs loanRepaid ?a "''Vani''" "''10''"
        "''loan_lqu5a2o0_k3x9ab''" 10 "''repay''" "Str ''loan_lqu5a2o0_k3x9ab''" ?l clock2
        ?w "''loan_lqu5a2o0_k3x9ab''" ?l "says vani ''!loan 5 Vixil again''" clock2]
      len parsed amt target found closed stored fresh
    by simp
qed

text \<open>
  Claim C6 as stated also says that no operation ever changes the status of a loan from
  \<open>resolved\<close> back to \<open>open\<close>. When the clock and \<open>Math.random\<close> give \<open>generateLoanId\<close> the
  characters they gave for an earlier loan, \<open>loanCommand\<close> overwrites that loan: here the
  loan that was repaid in full is open again.
\<close>

theorem colliding_id_reopens_loan:
  "map_option status (obj_get (loans loanRepaid) ''loan_lqu5a2o0_k3x9ab'') = Some ''resolved''
   \<and> generateLoanId clock1 = ''loan_lqu5a2o0_k3x9ab''
   \<and> map_option status
        (obj_get (loans (stateOf (loanCommand clock1 (says vani ''!loan 5 Vixil again'')
                                    [''5'', ''Vixil'', ''again''] loanRepaid)))
           ''loan_lqu5a2o0_k3x9ab'') = Some ''open''"
  by code_simp

subsection \<open>Targets given by lender name\<close>

lemma trim_Nil: "trim [] = []"
  by (simp add: trim_def)

lemma eqName_Undefined: "eqName (Str s) Undefined \<longleftrightarrow> trim s = []"
  by (cases "s = []")
    (simp_all add: eqName_def strOrEmpty_def truthy_def toStr_def toLowerCase_def trim_Nil)

text \<open>
  With \<open>undefined\<close> for the lender, \<open>findOpenLoans\<close> keeps the loans whose lender name is
  blank. \<open>loanCommand\<close> refuses a blank lender, so among the loans it creates there is none.
\<close>

lemma findOpenLoans_one_object:
  assumes "list_all (\<lambda>p. trim (lenderName (snd p)) \<noteq> []) (loans bd)"
  shows "findOpenLoans bd x Undefined = []"
  using assms
  by (auto simp: findOpenLoans_def filter_empty_conv list_all_iff eqName_Undefined)

lemma targetLoanId_by_name:
  assumes "\<not> isLoanId bd (Str tg)"
    and "list_all (\<lambda>p. trim (lenderName (snd p)) \<noteq> []) (loans bd)"
  shows "targetLoanId cmd bd b tg = Inl LenderEmpty
       \<or> targetLoanId cmd bd b tg = Inl (NoUnresolvedLoan b (trim tg))"
  using assms by (simp add: targetLoanId_def Let_def findOpenLoans_one_object)

text \<open>
  \<open>loanCommand\<close> stores the trimmed lender argument and refuses an empty one, and no other
  command writes a lender name: in every state the bot reaches from its start, every
  loan has a lender name that is not blank.
\<close>

lemma trim_empty_iff: "trim s = [] \<longleftrightarrow> list_all isSpace s"
proof
  assume "trim s = []"
  then have spaces: "\<forall>c \<in> set (dropWhile isSpace s). isSpace c"
    by (simp add: trim_def dropWhile_eq_Nil_conv)
  have "dropWhile isSpace s = []"
  proof (rule ccontr)
    assume ink: "dropWhile isSpace s \<noteq> []"
    then have "\<not> isSpace (hd (dropWhile isSpace s))"
      by (rule hd_dropWhile)
    moreover have "hd (dropWhile isSpace s) \<in> set (dropWhile isSpace s)"
      using ink by simp
    ultimately show False
      using spaces by blast
  qed
  then show "list_all isSpace s"
    by (simp add: dropWhile_eq_Nil_conv list_all_iff)
next
  assume "list_all isSpace s"
  then have "dropWhile isSpace s = []"
    by (simp add: dropWhile_eq_Nil_conv list_all_iff)
  then show "trim s = []"
    by (auto simp: trim_def dest: set_dropWhileD)
qed

lemma trim_has_ink:
  assumes "trim s \<noteq> []"
  shows "\<not> list_all isSpace (trim s)"
proof -
  let ?u = "dropWhile isSpace (rev (dropWhile isSpace s))"
  have "?u \<noteq> []"
    using assms by (simp add: trim_def)
  then have "\<not> isSpace (hd ?u)" and "hd ?u \<in> set ?u"
    using hd_dropWhile[of isSpace "rev (dropWhile isSpace s)"] by simp_all
  then show ?thesis
    by (auto simp: trim_def list_all_iff)
qed

lemma trim_trim_nonempty: "trim s \<noteq> [] \<Longrightarrow> trim (trim s) \<noteq> []"
  using trim_has_ink[of s] by (simp add: trim_empty_iff)

lemma list_all_addProperty:
  "list_all (\<lambda>p. R (snd p)) ob \<Longrightarrow> R v \<Longrightarrow> list_all (\<lambda>p. R (snd p)) (addProperty k v ob)"
  by (induction ob) (auto split: option.splits)

lemma list_all_obj_set:
  assumes "list_all (\<lambda>p. R (snd p)) ob" and "R v"
  shows "list_all (\<lambda>p. R (snd p)) (obj_set k v ob)"
proof (cases "map_of ob k")
  case None
  then show ?thesis
    using assms by (simp add: obj_set_def list_all_addProperty)
next
  case (Some old)
  then show ?thesis
    using assms by (auto simp: obj_set_def list_all_iff)
qed

lemma obj_get_list_all:
  assumes "list_all (\<lambda>p. R (snd p)) ob" and "obj_get ob k = Some v"
  shows "R v"
proof -
  have "(k, v) \<in> set ob"
    using assms(2) by (simp add: obj_get_def map_of_SomeD)
  then show ?thesis
    using assms(1) by (auto simp: list_all_iff)
qed

lemma loan_keeps_lendersNamed:
  "lendersNamed bd \<Longrightarrow> lendersNamed (stateOf (loanCommand e m args bd))"
  by (auto simp: lendersNamed_def loanCommand_def Let_def returnSend_def stateOf_def
      loans_recordLoanTransaction orUnknown_def trim_trim_nonempty
      intro!: list_all_obj_set split: option.splits)

lemma repay_keeps_lendersNamed:
  "lendersNamed bd \<Longrightarrow> lendersNamed (stateOf (repayCommand e m args bd))"
  unfolding lendersNamed_def
  by (auto simp: repayCommand_def Let_def returnSend_def stateOf_def getLoan_def
      loans_recordLoanTransaction
      intro!: list_all_obj_set dest: obj_get_list_all
      split: option.splits prod.splits sum.splits)

lemma accrue_keeps_lendersNamed:
  "lendersNamed bd \<Longrightarrow> lendersNamed (stateOf (accrueCommand e m args bd))"
  unfolding lendersNamed_def
  by (auto simp: accrueCommand_def Let_def returnSend_def stateOf_def getLoan_def
      loans_recordLoanTransaction
      intro!: list_all_obj_set dest: obj_get_list_all
      split: option.splits prod.splits sum.splits)

lemma process_keeps_lendersNamed:
  assumes "lendersNamed (bankData w)"
  shows "lendersNamed (bankData (stateOf (processCommand e m w)))"
  using assms loan_keeps_lendersNamed[of "bankData w" e m "tl (splitCommand m)"]
    repay_keeps_lendersNamed[of "bankData w" e m "tl (splitCommand m)"]
    accrue_keeps_lendersNamed[of "bankData w" e m "tl (splitCommand m)"]
    deposit_keeps_loans[of e m "tl (splitCommand m)" "bankData w"]
    withdraw_keeps_loans[of e m "tl (splitCommand m)" "bankData w"]
    setName_keeps_loans[of e m "tl (splitCommand m)" w]
  by (simp add: processCommand_def Let_def stateOf_gated stateOf_onData readers_keep_state
      exportDb_keeps_state detachedSend_def lendersNamed_def) (simp add: stateOf_def)

lemma onMessage_keeps_lendersNamed:
  assumes "lendersNamed (bankData w)"
  shows "lendersNamed (bankData (fst (onMessage e m w)))"
  using assms process_keeps_lendersNamed[OF assms, of e m]
  by (auto simp: onMessage_def stateOf_def split: completion.splits)

lemma runMessages_keeps_lendersNamed:
  "lendersNamed (bankData w) \<Longrightarrow> lendersNamed (bankData (runMessages xs w))"
  by (induction xs arbitrary: w) (simp_all add: onMessage_keeps_lendersNamed)

lemma reachable_lendersNamed: "lendersNamed (bankData (runMessages xs freshWorld))"
  by (rule runMessages_keeps_lendersNamed)
    (simp add: lendersNamed_def freshWorld_def initialData_def)

text \<open>So in every such state a target that is not a loan id is answered, never used.\<close>

lemma name_target_never_resolves:
  assumes "\<not> isLoanId (bankData (runMessages xs freshWorld)) (Str tg)"
  shows "targetLoanId cmd (bankData (runMessages xs freshWorld)) b tg = Inl LenderEmpty
       \<or> targetLoanId cmd (bankData (runMessages xs freshWorld)) b tg =
           Inl (NoUnresolvedLoan b (trim tg))"
  using targetLoanId_by_name[OF assms] reachable_lendersNamed[of xs]
  by (simp add: lendersNamed_def)

text \<open>
  Claim C1. A target that is not a loan id is a lender name: with one open loan of the
  borrower from that lender the command goes on with that loan, with several it lists
  their ids. The program does not do this. \<open>repayCommand\<close> and \<open>accrueCommand\<close> call
  \<open>findOpenLoans\<close> with one object where it takes two strings, so the search compares the
  borrower names with \<open>"[object Object]"\<close> and the lender names with \<open>""\<close>. With one open
  loan from Vixil to Vani, and with two, \<open>!repay 50 Vixil\<close> is answered that no unresolved
  loan was found, although \<open>findOpenLoans\<close> called with the two names finds the loans, and a
  repayment by loan id goes through.
\<close>

theorem repay_by_lender_name_finds_nothing:
  "findOpenLoans oneLoan (Str ''Vani'') (Str ''Vixil'') =
     [\<lparr>borrowerName = ''Vani'', lenderName = ''Vixil'', balance = 100, status = ''open'',
       loanTimestamp = ''2024-01-01T10:00:00.000Z'', loanNote = ''sword''\<rparr>]
   \<and> repayCommand clock2 (says vani ''!repay 50 Vixil'') [''50'', ''Vixil''] oneLoan =
       Returned (NoUnresolvedLoan ''Vani'' ''Vixil'') oneLoan
   \<and> accrueCommand clock2 (says vani ''!accrue 10 Vixil'') [''10'', ''Vixil''] oneLoan =
       Returned (NoUnresolvedLoan ''Vani'' ''Vixil'') oneLoan
   \<and> length (findOpenLoans twoLoans (Str ''Vani'') (Str ''Vixil'')) = 2
   \<and> repayCommand clock2 (says vani ''!repay 50 Vixil'') [''50'', ''Vixil''] twoLoans =
       Returned (NoUnresolvedLoan ''Vani'' ''Vixil'') twoLoans
   \<and> replyOf (repayCommand clock2 (says vani ''!repay 50 loan_lqu5a2o0_k3x9ab'')
                [''50'', ''loan_lqu5a2o0_k3x9ab''] twoLoans) =
       Repaid 50 ''Vixil'' 50 100 (Some ''sword'') False"
  by code_simp

section \<open>Debt leaderboard\<close>

text \<open>
  The debt stored under a borrower name is the sum of the balances of the borrower's
  open loans with a positive balance, and a name is a key exactly when there is such a
  loan. The entries returned are positive, in descending order, and at most \<open>limit\<close>.
\<close>

lemma addDebt_get:
  "obj_get (addDebt l acc) nm =
     (if owes nm l then Some \<lparr>debt = debtOf acc nm + balance l\<rparr> else obj_get acc nm)"
  by (auto simp: addDebt_def owes_def debtOf_def Let_def obj_get_set)

lemma debtOf_addDebt:
  "debtOf (addDebt l acc) nm = (if owes nm l then debtOf acc nm + balance l else debtOf acc nm)"
  by (simp add: debtOf_def addDebt_get)

lemma fold_addDebt:
  "debtOf (foldl (\<lambda>acc p. addDebt (snd p) acc) acc ls) nm =
     debtOf acc nm + sum_list (map balance (filter (owes nm) (map snd ls)))"
proof (induction ls arbitrary: acc)
  case Nil
  then show ?case by simp
next
  case (Cons p ps)
  show ?case
    by (simp add: Cons.IH debtOf_addDebt)
qed

lemma fold_addDebt_dom:
  "obj_get (foldl (\<lambda>acc p. addDebt (snd p) acc) acc ls) nm = None \<longleftrightarrow>
     obj_get acc nm = None \<and> filter (owes nm) (map snd ls) = []"
proof (induction ls arbitrary: acc)
  case Nil
  then show ?case by simp
next
  case (Cons p ps)
  show ?case
    by (simp add: Cons.IH addDebt_get)
qed

lemma debtByBorrower_total:
  "debtOf (debtByBorrower bd) nm = sum_list (map balance (filter (owes nm) (map snd (loans bd))))"
  by (simp add: debtByBorrower_def fold_addDebt) (simp add: debtOf_def obj_get_def)

lemma debtByBorrower_keys:
  "obj_get (debtByBorrower bd) nm = None \<longleftrightarrow> filter (owes nm) (map snd (loans bd)) = []"
  by (simp add: debtByBorrower_def fold_addDebt_dom) (simp add: obj_get_def)

lemma sortDesc_sorted: "sorted (map (\<lambda>r. - f r) (sortDesc f xs))"
  by (simp add: sortDesc_def)

lemma sortDesc_set: "set (sortDesc f xs) = set xs"
  by (simp add: sortDesc_def)

lemma sliceTo_take: "\<exists>k. sliceTo n xs = take k xs \<and> (0 \<le> n \<longrightarrow> int k \<le> n)"
  by (auto simp: sliceTo_def Let_def)

lemma getTopDebtEntries_sorted: "sorted (map (\<lambda>r. - debt r) (getTopDebtEntries bd n))"
proof -
  obtain k where k: "getTopDebtEntries bd n =
      take k (sortDesc debt (filter (\<lambda>v. debt v > 0) (map snd (debtByBorrower bd))))"
    unfolding getTopDebtEntries_def using sliceTo_take by blast
  show ?thesis
    unfolding k using sorted_wrt_take[OF sortDesc_sorted] by (simp only: take_map)
qed

lemma getTopDebtEntries_positive: "list_all (\<lambda>r. 0 < debt r) (getTopDebtEntries bd n)"
proof -
  obtain k where k: "getTopDebtEntries bd n =
      take k (sortDesc debt (filter (\<lambda>v. debt v > 0) (map snd (debtByBorrower bd))))"
    unfolding getTopDebtEntries_def using sliceTo_take by blast
  have "set (getTopDebtEntries bd n)
          \<subseteq> set (filter (\<lambda>v. debt v > 0) (map snd (debtByBorrower bd)))"
    unfolding k using set_take_subset[of k] sortDesc_set by metis
  then show ?thesis
    unfolding list_all_iff by auto
qed

lemma getTopDebtEntries_length: "0 \<le> n \<Longrightarrow> int (length (getTopDebtEntries bd n)) \<le> n"
  by (auto simp: getTopDebtEntries_def sliceTo_def Let_def)

text \<open>
  Claim C7. The top debtors are pairs of a borrower name and the sum of the balances of
  the borrower's open loans, so each entry carries the name. The program does not do
  this: \<open>getTopDebtEntries\<close> returns the values of \<open>debtByBorrower\<close>, objects with the one
  property \<open>debt\<close>, and \<open>leaderboardCommand\<close> prints \<open>row.name\<close>, which is \<open>undefined\<close>. With
  the two loans of Vani (100 and 70) the one entry is the total 170 without a name.
\<close>

theorem debt_entries_have_no_name:
  "getTopDebtEntries twoLoans 10 = [\<lparr>debt = 170\<rparr>]
   \<and> leaderboardCommand clock2 [] twoLoans =
       Returned (Leaderboard [] [(Undefined, 170)]) twoLoans"
  by code_simp

section \<open>History\<close>

lemma historyCount_range: "0 \<le> historyCount m args \<and> historyCount m args \<le> 20"
  by (auto simp: historyCount_def floor_le_iff le_floor_iff split: number.splits)

lemma sliceFrom_bound: "0 < c \<Longrightarrow> length (sliceFrom (- c) xs) \<le> nat c"
  by (auto simp: sliceFrom_def Let_def)

lemma sliceFrom_zero: "sliceFrom (- 0) xs = xs"
  by (simp add: sliceFrom_def)

text \<open>A count of at least 1 returns at most 20 transactions.\<close>

lemma history_capped_when_positive:
  assumes "replyOf (historyCommand e m args bd) = LastTransactions n a xs"
    and "0 < historyCount m args"
  shows "n \<le> 20 \<and> length xs \<le> 20"
proof -
  have "length (sliceFrom (- historyCount m args) ys) \<le> 20" for ys :: "transaction list"
    using sliceFrom_bound[OF assms(2), of ys] historyCount_range[of m args] by linarith
  then show ?thesis
    using assms(1)
    by (auto simp: historyCommand_def Let_def returnSend_def detachedSend_def replyOf_def
        split: if_splits)
qed

text \<open>
  Claim C10. A count is used when it is a finite number greater than 0 and at most 20,
  floored, and is 5 otherwise, so a call returns at most 20 transactions. The program
  does not do this: a count between 0 and 1 is floored to 0, \<open>list.slice(-0)\<close> is the whole
  list, and \<open>!history 0.5\<close> on an account with 21 transactions returns all 21.
\<close>

theorem history_of_fraction_returns_all:
  "historyCount (says vani ''!history 0.5'') [''0.5''] = 0
   \<and> length (txList (transactions manyDeposits) ''Vani'') = 21
   \<and> historyCommand clock2 (says vani ''!history 0.5'') [''0.5''] manyDeposits =
       Returned
         (LastTransactions 21 ''Vani''
            (replicate 21 \<lparr>timestamp = ''2024-01-01T10:00:00.000Z'', txType = ''deposit'',
                            amount = 1, actorId = ''1001'', txNote = ''tip''\<rparr>))
         manyDeposits"
  by code_simp

section \<open>Mutation gate\<close>










section \<open>Snapshots\<close>

lemma ensureKey_present: "present d k \<Longrightarrow> ensureKey k d = d"
  by (auto simp: present_def ensureKey_def split: option.splits)

lemma obj_get_ensureKey:
  "obj_get (ensureKey k d) k' =
     (if k' = k \<and> \<not> present d k then Some (JObj []) else obj_get d k')"
  by (auto simp: present_def ensureKey_def obj_get_set split: option.splits)

lemma present_ensureKey: "present (ensureKey k d) k' = (k' = k \<or> present d k')"
  by (auto simp: present_def obj_get_ensureKey jsonTruthy_def split: option.splits)

lemma loadData_get:
  "obj_get (loadData (Parsed d) cur) k =
     (if k \<in> set topLevelKeys \<and> \<not> present d k then Some (JObj []) else obj_get d k)"
  by (auto simp: loadData_def topLevelKeys_def obj_get_ensureKey present_ensureKey)

lemma loadData_present:
  "present (loadData (Parsed d) cur) k = (k \<in> set topLevelKeys \<or> present d k)"
  by (auto simp: loadData_def topLevelKeys_def present_ensureKey)

lemma loadData_complete:
  assumes "list_all (present d) topLevelKeys"
  shows "loadData (Parsed d) cur = d"
  using assms by (simp add: loadData_def topLevelKeys_def ensureKey_present)

lemma loadData_idem:
  "loadData (Parsed (loadData (Parsed d) cur)) cur' = loadData (Parsed d) cur"
  by (rule loadData_complete) (simp add: topLevelKeys_def loadData_present)

text \<open>The object of a state of the commands has the five keys: loading it changes nothing.\<close>

lemma loadData_toJson: "loadData (Parsed (toJson bd)) cur = toJson bd"
  by (rule loadData_complete)
    (simp add: topLevelKeys_def present_def toJson_def obj_get_def mapValues_def jsonTruthy_def)

text \<open>
  Claim C9. Loading a snapshot and saving at once writes the loaded state, and loading
  that file again gives the same state; for a snapshot that has the five top-level keys
  the loaded state, and so the file written, is the snapshot itself. A top-level key that
  the snapshot lacks is an empty object in the loaded state, and every other property is
  as in the snapshot.
\<close>

theorem snapshot_round_trip:
  "(writeOk e \<longrightarrow>
      saveData e (loadData (Parsed d) cur) f = Parsed (loadData (Parsed d) cur)
    \<and> loadData (saveData e (loadData (Parsed d) cur) f) cur' = loadData (Parsed d) cur)
   \<and> (list_all (present d) topLevelKeys \<longrightarrow> loadData (Parsed d) cur = d)
   \<and> (k \<in> set topLevelKeys \<and> obj_get d k = None \<longrightarrow>
        obj_get (loadData (Parsed d) cur) k = Some (JObj []))
   \<and> (present d k \<or> k \<notin> set topLevelKeys \<longrightarrow>
        obj_get (loadData (Parsed d) cur) k = obj_get d k)"
  using loadData_complete[of d cur]
  by (auto simp: saveData_def loadData_idem loadData_get present_def)

theorem snapshot_round_trip_witness:
  "obj_get oldSnapshot ''loans'' = None
   \<and> obj_get (loadData (Parsed oldSnapshot) []) ''loans'' = Some (JObj [])
   \<and> obj_get (loadData (Parsed oldSnapshot) []) ''balances'' = Some (JObj [(''Vani'', JNum 30)])
   \<and> loadData (saveData clock1 (loadData (Parsed oldSnapshot) []) (Parsed oldSnapshot)) [] =
       loadData (Parsed oldSnapshot) []
   \<and> list_all (present (toJson vaniHas30)) topLevelKeys
   \<and> saveData clock1 (loadData (Parsed (toJson vaniHas30)) []) Missing = Parsed (toJson vaniHas30)"
proof -
  have ok: "writeOk clock1"
    by (simp add: clock1_def)
  have key: "''loans'' \<in> set topLevelKeys" "''balances'' \<in> set topLevelKeys"
    by (simp_all add: topLevelKeys_def)
  have missing: "obj_get oldSnapshot ''loans'' = None"
    by code_simp
  have there: "present oldSnapshot ''balances''"
    "obj_get oldSnapshot ''balances'' = Some (JObj [(''Vani'', JNum 30)])"
    by code_simp+
  have complete: "list_all (present (toJson vaniHas30)) topLevelKeys"
    by code_simp
  have backfilled: "obj_get (loadData (Parsed oldSnapshot) []) ''loans'' = Some (JObj [])"
    using snapshot_round_trip[of clock1 oldSnapshot "[]" "Parsed oldSnapshot" "[]" "''loans''"]
      key missing by blast
  have kept: "obj_get (loadData (Parsed oldSnapshot) []) ''balances'' =
                Some (JObj [(''Vani'', JNum 30)])"
    using snapshot_round_trip[of clock1 oldSnapshot "[]" "Parsed oldSnapshot" "[]" "''balances''"]
      there by simp
  have again: "loadData (saveData clock1 (loadData (Parsed oldSnapshot) []) (Parsed oldSnapshot)) []
                 = loadData (Parsed oldSnapshot) []"
    using snapshot_round_trip[of clock1 oldSnapshot "[]" "Parsed oldSnapshot" "[]" "''loans''"]
      ok by blast
  have exact: "saveData clock1 (loadData (Parsed (toJson vaniHas30)) []) Missing =
                 Parsed (toJson vaniHas30)"
    using snapshot_round_trip[of clock1 "toJson vaniHas30" "[]" Missing "[]" "''loans''"]
      ok complete by (simp add: saveData_def)
  show ?thesis
    using missing backfilled kept again complete exact by blast
qed

end
